theory Spec2Isabelle
  imports Complex_Main "HOL-Library.Sublist"
begin

section \<open>Floating-point values\<close>

text \<open>
  The program computes on IEEE-754 doubles (Python \<^verbatim>\<open>float\<close>, numpy \<^verbatim>\<open>float64\<close>).
  A value is modelled as a finite real number or one of the three special values.
  Finite arithmetic is exact: rounding, overflow to infinity and the sign of zero are
  not modelled. The special values follow IEEE-754: an operation on \<open>NaN\<close> gives
  \<open>NaN\<close>, \<open>inf - inf\<close>, \<open>0 * inf\<close>, \<open>0 / 0\<close> and \<open>inf / inf\<close> give \<open>NaN\<close>, and a
  non-zero finite value divided by zero gives an infinity. numpy does not raise on
  these (it prints a RuntimeWarning and continues), so none of the operations has an
  error branch.
\<close>

datatype fval = Fin real | PInf | NInf | NaN

fun is_finite :: "fval \<Rightarrow> bool" where
  "is_finite (Fin a) = True"
| "is_finite PInf = False"
| "is_finite NInf = False"
| "is_finite NaN = False"

fun is_nan :: "fval \<Rightarrow> bool" where
  "is_nan (Fin a) = False"
| "is_nan PInf = False"
| "is_nan NInf = False"
| "is_nan NaN = True"

fun fneg :: "fval \<Rightarrow> fval" where
  "fneg (Fin a) = Fin (- a)"
| "fneg PInf = NInf"
| "fneg NInf = PInf"
| "fneg NaN = NaN"

fun fadd :: "fval \<Rightarrow> fval \<Rightarrow> fval" where
  "fadd NaN y = NaN"
| "fadd x NaN = NaN"
| "fadd (Fin a) (Fin b) = Fin (a + b)"
| "fadd (Fin a) PInf = PInf"
| "fadd (Fin a) NInf = NInf"
| "fadd PInf (Fin b) = PInf"
| "fadd NInf (Fin b) = NInf"
| "fadd PInf PInf = PInf"
| "fadd NInf NInf = NInf"
| "fadd PInf NInf = NaN"
| "fadd NInf PInf = NaN"

definition fsub :: "fval \<Rightarrow> fval \<Rightarrow> fval" where
  "fsub x y = fadd x (fneg y)"

text \<open>The infinity with the sign of a non-zero real.\<close>

definition signed_inf :: "real \<Rightarrow> fval" where
  "signed_inf s = (if 0 < s then PInf else NInf)"

fun fmul :: "fval \<Rightarrow> fval \<Rightarrow> fval" where
  "fmul NaN y = NaN"
| "fmul x NaN = NaN"
| "fmul (Fin a) (Fin b) = Fin (a * b)"
| "fmul (Fin a) PInf = (if a = 0 then NaN else signed_inf a)"
| "fmul (Fin a) NInf = (if a = 0 then NaN else signed_inf (- a))"
| "fmul PInf (Fin b) = (if b = 0 then NaN else signed_inf b)"
| "fmul NInf (Fin b) = (if b = 0 then NaN else signed_inf (- b))"
| "fmul PInf PInf = PInf"
| "fmul NInf NInf = PInf"
| "fmul PInf NInf = NInf"
| "fmul NInf PInf = NInf"

text \<open>
  Division as numpy performs it on \<^verbatim>\<open>float64\<close>: a zero divisor is not an error. A
  zero divisor is taken as \<open>+0.0\<close>, which is what \<open>t - t\<close> gives for a finite \<open>t\<close>.
\<close>

fun fdiv :: "fval \<Rightarrow> fval \<Rightarrow> fval" where
  "fdiv NaN y = NaN"
| "fdiv x NaN = NaN"
| "fdiv (Fin a) (Fin b) =
     (if b \<noteq> 0 then Fin (a / b) else if a = 0 then NaN else signed_inf a)"
| "fdiv (Fin a) PInf = Fin 0"
| "fdiv (Fin a) NInf = Fin 0"
| "fdiv PInf (Fin b) = (if 0 \<le> b then PInf else NInf)"
| "fdiv NInf (Fin b) = (if 0 \<le> b then NInf else PInf)"
| "fdiv PInf PInf = NaN"
| "fdiv NInf NInf = NaN"
| "fdiv PInf NInf = NaN"
| "fdiv NInf PInf = NaN"

fun fsqrt :: "fval \<Rightarrow> fval" where
  "fsqrt (Fin a) = (if a < 0 then NaN else Fin (sqrt a))"
| "fsqrt PInf = PInf"
| "fsqrt NInf = NaN"
| "fsqrt NaN = NaN"

text \<open>The comparison \<^verbatim>\<open>x >= y\<close>: false as soon as one side is \<open>NaN\<close>.\<close>

fun fge :: "fval \<Rightarrow> fval \<Rightarrow> bool" where
  "fge NaN y = False"
| "fge x NaN = False"
| "fge (Fin a) (Fin b) = (b \<le> a)"
| "fge PInf y = True"
| "fge x NInf = True"
| "fge (Fin a) PInf = False"
| "fge NInf (Fin b) = False"
| "fge NInf PInf = False"

section \<open>One-dimensional numpy arrays\<close>

text \<open>
  A one-dimensional \<^verbatim>\<open>float64\<close> array is a list. The exceptions the program can
  meet are values of \<open>error\<close>; a computation that may raise returns \<open>error + 'a\<close>.
\<close>

datatype error = StopIteration | ValueError | IndexError | FileNotFoundError

definition bind_err :: "error + 'a \<Rightarrow> ('a \<Rightarrow> error + 'b) \<Rightarrow> error + 'b" where
  "bind_err m k = (case m of Inl e \<Rightarrow> Inl e | Inr v \<Rightarrow> k v)"

text \<open>
  An elementwise binary operator on two arrays, with numpy's broadcasting for one
  dimension: equal shapes combine index by index, an array of length 1 is stretched
  to the other's length, and any other pair of shapes raises \<^verbatim>\<open>ValueError\<close>.
\<close>

definition np_binop ::
  "(fval \<Rightarrow> fval \<Rightarrow> fval) \<Rightarrow> fval list \<Rightarrow> fval list \<Rightarrow> error + fval list" where
  "np_binop f xs ys =
     (if length xs = length ys then Inr (map2 f xs ys)
      else if length xs = 1 then Inr (map (f (hd xs)) ys)
      else if length ys = 1 then Inr (map (\<lambda>x. f x (hd ys)) xs)
      else Inl ValueError)"

text \<open>\<^verbatim>\<open>a ** 2\<close>, \<^verbatim>\<open>np.sqrt(a)\<close> and \<^verbatim>\<open>a - s\<close> for a scalar \<open>s\<close>, elementwise.\<close>

definition np_square :: "fval list \<Rightarrow> fval list" where
  "np_square xs = map (\<lambda>x. fmul x x) xs"

definition np_sqrt :: "fval list \<Rightarrow> fval list" where
  "np_sqrt xs = map fsqrt xs"

definition np_sub_scalar :: "fval list \<Rightarrow> fval \<Rightarrow> fval list" where
  "np_sub_scalar xs s = map (\<lambda>x. fsub x s) xs"

text \<open>
  \<^verbatim>\<open>np.diff(a)\<close> is \<^verbatim>\<open>a[1:] - a[:-1]\<close>: the two slices always have the same
  length, so it never raises.
\<close>

definition np_diff :: "fval list \<Rightarrow> fval list" where
  "np_diff xs = map2 fsub (drop 1 xs) (butlast xs)"

section \<open>The derivation engine\<close>

text \<open>
  The source's array \<^verbatim>\<open>times\<close> is written \<open>tms\<close> (\<open>times\<close> is HOL's
  multiplication).
\<close>

text \<open>
  \<^verbatim>\<open>
  def calculate_net_acceleration(ax, ay, az):
      return np.sqrt(ax**2 + ay**2 + az**2)
  \<close>
\<close>

definition calculate_net_acceleration ::
  "fval list \<Rightarrow> fval list \<Rightarrow> fval list \<Rightarrow> error + fval list" where
  "calculate_net_acceleration ax ay az =
     bind_err (np_binop fadd (np_square ax) (np_square ay)) (\<lambda>s.
     bind_err (np_binop fadd s (np_square az)) (\<lambda>t.
     Inr (np_sqrt t)))"

text \<open>
  \<^verbatim>\<open>
  def calculate_net_jerk(net_acc, times):
      jerk = np.diff(net_acc) / np.diff(times)
      jerk_times = times[1:]
      return jerk, jerk_times
  \<close>
\<close>

definition calculate_net_jerk ::
  "fval list \<Rightarrow> fval list \<Rightarrow> error + (fval list \<times> fval list)" where
  "calculate_net_jerk net_acc tms =
     bind_err (np_binop fdiv (np_diff net_acc) (np_diff tms)) (\<lambda>jerk.
     Inr (jerk, drop 1 tms))"

text \<open>
  \<^verbatim>\<open>
  def calculate_angular_velocities(yaws, pitches, rolls, times):
      yaw_rate = np.diff(yaws) / np.diff(times)
      pitch_rate = np.diff(pitches) / np.diff(times)
      roll_rate = np.diff(rolls) / np.diff(times)
      deriv_times = times[1:]
      return yaw_rate, pitch_rate, roll_rate, deriv_times
  \<close>
\<close>

definition calculate_angular_velocities ::
  "fval list \<Rightarrow> fval list \<Rightarrow> fval list \<Rightarrow> fval list \<Rightarrow>
   error + (fval list \<times> fval list \<times> fval list \<times> fval list)" where
  "calculate_angular_velocities yaws pitches rolls tms =
     bind_err (np_binop fdiv (np_diff yaws) (np_diff tms)) (\<lambda>yaw_rate.
     bind_err (np_binop fdiv (np_diff pitches) (np_diff tms)) (\<lambda>pitch_rate.
     bind_err (np_binop fdiv (np_diff rolls) (np_diff tms)) (\<lambda>roll_rate.
     Inr (yaw_rate, pitch_rate, roll_rate, drop 1 tms))))"

section \<open>The parser\<close>

text \<open>
  The input file is given as the sequence of records that \<^verbatim>\<open>csv.reader\<close> yields,
  each a list of field strings (splitting lines into fields is the library's work).
  The built-in \<^verbatim>\<open>float\<close> is a parameter \<open>float_of\<close> of the parser: \<open>None\<close> stands
  for \<^verbatim>\<open>ValueError\<close>. The seven lists the parser fills are the fields of a record;
  \<open>c_times\<close> is the source's \<^verbatim>\<open>times\<close>, and so on.
\<close>

record columns =
  c_times :: "fval list"
  c_yaws :: "fval list"
  c_pitches :: "fval list"
  c_rolls :: "fval list"
  c_accel_x :: "fval list"
  c_accel_y :: "fval list"
  c_accel_z :: "fval list"

definition empty_columns :: columns where
  "empty_columns =
     \<lparr>c_times = [], c_yaws = [], c_pitches = [], c_rolls = [],
      c_accel_x = [], c_accel_y = [], c_accel_z = []\<rparr>"

text \<open>
  The seven conversions of the \<^verbatim>\<open>try\<close> block, in the source's order; the first
  one that fails ends the block, before anything is appended.
  \<^verbatim>\<open>
  time_ms = float(row[0])
  time_s = time_ms / 1000.0  # Convert to seconds
  yaw = float(row[1])
  pitch = float(row[2])
  roll = float(row[3])
  ax = float(row[4])
  ay = float(row[5])
  az = float(row[6])
  \<close>
\<close>

definition parse_fields ::
  "(string \<Rightarrow> fval option) \<Rightarrow> string list \<Rightarrow>
   (fval \<times> fval \<times> fval \<times> fval \<times> fval \<times> fval \<times> fval) option" where
  "parse_fields float_of row =
     Option.bind (float_of (row ! 0)) (\<lambda>time_ms.
     let time_s = fdiv time_ms (Fin 1000) in
     Option.bind (float_of (row ! 1)) (\<lambda>yaw.
     Option.bind (float_of (row ! 2)) (\<lambda>pitch.
     Option.bind (float_of (row ! 3)) (\<lambda>roll.
     Option.bind (float_of (row ! 4)) (\<lambda>ax.
     Option.bind (float_of (row ! 5)) (\<lambda>ay.
     Option.bind (float_of (row ! 6)) (\<lambda>az.
     Some (time_s, yaw, pitch, roll, ax, ay, az))))))))"

text \<open>
  The body of the \<^verbatim>\<open>for\<close> loop: a row of fewer than 7 fields is passed over, a row
  whose conversion raises is passed over by \<^verbatim>\<open>except (ValueError, IndexError): continue\<close>,
  and any other row appends one entry to each of the seven lists.
\<close>

definition process_row :: "(string \<Rightarrow> fval option) \<Rightarrow> columns \<Rightarrow> string list \<Rightarrow> columns" where
  "process_row float_of st row =
     (if 7 \<le> length row then
        (case parse_fields float_of row of
           None \<Rightarrow> st
         | Some (time_s, yaw, pitch, roll, ax, ay, az) \<Rightarrow>
             st\<lparr>c_times := c_times st @ [time_s],
                c_yaws := c_yaws st @ [yaw],
                c_pitches := c_pitches st @ [pitch],
                c_rolls := c_rolls st @ [roll],
                c_accel_x := c_accel_x st @ [ax],
                c_accel_y := c_accel_y st @ [ay],
                c_accel_z := c_accel_z st @ [az]\<rparr>)
      else st)"

text \<open>
  \<^verbatim>\<open>next(reader)\<close> takes the header off; on a file with no record at all it raises
  \<^verbatim>\<open>StopIteration\<close>, which nothing catches.
\<close>

definition parse_csv :: "(string \<Rightarrow> fval option) \<Rightarrow> string list list \<Rightarrow> error + columns" where
  "parse_csv float_of rows =
     (case rows of
        [] \<Rightarrow> Inl StopIteration
      | header # rest \<Rightarrow> Inr (foldl (process_row float_of) empty_columns rest))"

text \<open>
  The condition under which a row is kept, in the words of the specification: the row
  has at least 7 fields and fields 0 to 6 all convert.
\<close>

definition valid_row :: "(string \<Rightarrow> fval option) \<Rightarrow> string list \<Rightarrow> bool" where
  "valid_row float_of row =
     (7 \<le> length row \<and>
      float_of (row ! 0) \<noteq> None \<and> float_of (row ! 1) \<noteq> None \<and>
      float_of (row ! 2) \<noteq> None \<and> float_of (row ! 3) \<noteq> None \<and>
      float_of (row ! 4) \<noteq> None \<and> float_of (row ! 5) \<noteq> None \<and>
      float_of (row ! 6) \<noteq> None)"

text \<open>Field \<open>k\<close> of a valid row as a number, unconverted.\<close>

definition field :: "(string \<Rightarrow> fval option) \<Rightarrow> nat \<Rightarrow> string list \<Rightarrow> fval" where
  "field float_of k row = the (float_of (row ! k))"

text \<open>
  The seven arrays in closed form, for a list of kept rows: the time column is field 0
  divided by 1000, the other six columns are fields 1 to 6 as they convert.
\<close>

definition columns_of :: "(string \<Rightarrow> fval option) \<Rightarrow> string list list \<Rightarrow> columns" where
  "columns_of float_of kept =
     \<lparr>c_times = map (\<lambda>row. fdiv (field float_of 0 row) (Fin 1000)) kept,
      c_yaws = map (field float_of 1) kept,
      c_pitches = map (field float_of 2) kept,
      c_rolls = map (field float_of 3) kept,
      c_accel_x = map (field float_of 4) kept,
      c_accel_y = map (field float_of 5) kept,
      c_accel_z = map (field float_of 6) kept\<rparr>"

subsection \<open>Python's \<^verbatim>\<open>float\<close> on ASCII text\<close>

text \<open>
  A model of the built-in for strings of ASCII characters, used to run the parser on
  concrete files: surrounding whitespace is stripped, underscores are accepted between
  digits only, then an optional sign is followed by \<^verbatim>\<open>inf\<close>, \<^verbatim>\<open>infinity\<close> or
  \<^verbatim>\<open>nan\<close> in any letter case, or by a decimal number with an optional exponent.
  The value of a decimal is exact. A string with a character outside ASCII is refused
  here (the built-in also converts Unicode digits and spaces).
\<close>

definition is_space :: "char \<Rightarrow> bool" where
  "is_space c = (c \<in> set [CHR '' '', CHR 0x09, CHR 0x0A, CHR 0x0B, CHR 0x0C, CHR 0x0D])"

definition is_digit :: "char \<Rightarrow> bool" where
  "is_digit c = (48 \<le> (of_char c :: nat) \<and> (of_char c :: nat) \<le> 57)"

definition to_lower :: "char \<Rightarrow> char" where
  "to_lower c =
     (if 65 \<le> (of_char c :: nat) \<and> (of_char c :: nat) \<le> 90
      then char_of ((of_char c :: nat) + 32) else c)"

definition strip :: "string \<Rightarrow> string" where
  "strip s = rev (dropWhile is_space (rev (dropWhile is_space s)))"

text \<open>
  Underscores: one is allowed only after a digit and only before a digit. \<open>prev\<close> is
  the character before, \<open>None\<close> at the start.
\<close>

fun underscores_ok :: "char option \<Rightarrow> string \<Rightarrow> bool" where
  "underscores_ok prev [] = (prev \<noteq> Some (CHR ''_''))"
| "underscores_ok prev (c # cs) =
     ((if c = CHR ''_'' then (case prev of None \<Rightarrow> False | Some p \<Rightarrow> is_digit p)
       else if prev = Some (CHR ''_'') then is_digit c else True)
      \<and> underscores_ok (Some c) cs)"

definition split_sign :: "string \<Rightarrow> bool \<times> string" where
  "split_sign s =
     (case s of
        [] \<Rightarrow> (False, [])
      | c # r \<Rightarrow> if c = CHR ''-'' then (True, r)
                else if c = CHR ''+'' then (False, r) else (False, s))"

definition digits_val :: "string \<Rightarrow> nat" where
  "digits_val ds = foldl (\<lambda>n c. 10 * n + ((of_char c :: nat) - 48)) 0 ds"

definition pow10 :: "int \<Rightarrow> real" where
  "pow10 e = (if 0 \<le> e then 10 ^ nat e else 1 / 10 ^ nat (- e))"

text \<open>The exponent part: empty, or \<^verbatim>\<open>e\<close>, an optional sign and at least one digit.\<close>

definition parse_exponent :: "string \<Rightarrow> int option" where
  "parse_exponent s =
     (case s of
        [] \<Rightarrow> Some 0
      | c # t \<Rightarrow>
          if c = CHR ''e'' \<or> c = CHR ''E'' then
            (let (eneg, u) = split_sign t in
             if u \<noteq> [] \<and> list_all is_digit u
             then Some (if eneg then - int (digits_val u) else int (digits_val u))
             else None)
          else None)"

definition parse_decimal :: "string \<Rightarrow> real option" where
  "parse_decimal r =
     (let ip = takeWhile is_digit r;
          r1 = dropWhile is_digit r;
          (fp, r2) = (case r1 of
                        [] \<Rightarrow> ([], r1)
                      | c # t \<Rightarrow> if c = CHR ''.''
                                then (takeWhile is_digit t, dropWhile is_digit t)
                                else ([], r1))
      in if ip = [] \<and> fp = [] then None
         else (case parse_exponent r2 of
                 None \<Rightarrow> None
               | Some e \<Rightarrow> Some (real (digits_val (ip @ fp)) * pow10 (e - int (length fp)))))"

definition py_float :: "string \<Rightarrow> fval option" where
  "py_float s =
     (let t = strip s in
      if \<not> underscores_ok None t then None
      else
        (let (neg, r) = split_sign (filter (\<lambda>c. c \<noteq> CHR ''_'') t);
             l = map to_lower r
         in if l = ''inf'' \<or> l = ''infinity'' then Some (if neg then NInf else PInf)
            else if l = ''nan'' then Some NaN
            else (case parse_decimal r of
                    None \<Rightarrow> None
                  | Some v \<Rightarrow> Some (Fin (if neg then - v else v)))))"

section \<open>The pipeline\<close>

text \<open>
  The derived quantities and the three normalised time axes that
  \<^verbatim>\<open>generate_graphs\<close> computes between parsing and plotting:
  \<^verbatim>\<open>
  net_acc = calculate_net_acceleration(ax, ay, az)
  jerk, jerk_times = calculate_net_jerk(net_acc, times)
  yaw_rate, pitch_rate, roll_rate, deriv_times = calculate_angular_velocities(yaws, pitches, rolls, times)
  start_time = times[0]
  times_norm = times - start_time
  jerk_times_norm = jerk_times - start_time
  deriv_times_norm = deriv_times - start_time
  \<close>
  \<^verbatim>\<open>times[0]\<close> on an empty array raises \<^verbatim>\<open>IndexError\<close>.
\<close>

record derived =
  net_acc :: "fval list"
  jerk :: "fval list"
  jerk_times :: "fval list"
  yaw_rate :: "fval list"
  pitch_rate :: "fval list"
  roll_rate :: "fval list"
  deriv_times :: "fval list"
  start_time :: fval
  times_norm :: "fval list"
  jerk_times_norm :: "fval list"
  deriv_times_norm :: "fval list"

definition derive :: "columns \<Rightarrow> error + derived" where
  "derive c =
     bind_err (calculate_net_acceleration (c_accel_x c) (c_accel_y c) (c_accel_z c)) (\<lambda>na.
     bind_err (calculate_net_jerk na (c_times c)) (\<lambda>(j, jt).
     bind_err (calculate_angular_velocities (c_yaws c) (c_pitches c) (c_rolls c) (c_times c))
       (\<lambda>(yr, pr, rr, dt).
     (case c_times c of
        [] \<Rightarrow> Inl IndexError
      | t0 # _ \<Rightarrow>
          Inr \<lparr>net_acc = na, jerk = j, jerk_times = jt,
               yaw_rate = yr, pitch_rate = pr, roll_rate = rr, deriv_times = dt,
               start_time = t0,
               times_norm = np_sub_scalar (c_times c) t0,
               jerk_times_norm = np_sub_scalar jt t0,
               deriv_times_norm = np_sub_scalar dt t0\<rparr>))))"

text \<open>
  The plotting library is outside the program. A figure is the data handed to it: five
  charts, each with its title and its labelled lines. \<^verbatim>\<open>plot(x, y)\<close> raises
  \<^verbatim>\<open>ValueError\<close> when the two arrays differ in length. Colours, fills, axis labels,
  grid and layout are left out.
\<close>

type_synonym line = "string \<times> fval list \<times> fval list"

record chart =
  title :: string
  lines :: "line list"

definition plot :: "string \<Rightarrow> fval list \<Rightarrow> fval list \<Rightarrow> error + line" where
  "plot label x y = (if length x = length y then Inr (label, x, y) else Inl ValueError)"

fun plot_all :: "(string \<times> fval list \<times> fval list) list \<Rightarrow> error + line list" where
  "plot_all [] = Inr []"
| "plot_all ((label, x, y) # rest) =
     bind_err (plot label x y) (\<lambda>l.
     bind_err (plot_all rest) (\<lambda>ls. Inr (l # ls)))"

definition subplot :: "string \<Rightarrow> (string \<times> fval list \<times> fval list) list \<Rightarrow> error + chart" where
  "subplot t specs = bind_err (plot_all specs) (\<lambda>ls. Inr \<lparr>title = t, lines = ls\<rparr>)"

definition render :: "columns \<Rightarrow> derived \<Rightarrow> error + chart list" where
  "render c d =
     bind_err (subplot ''Net Acceleration vs Time''
                 [(''Net Acceleration'', times_norm d, net_acc d)]) (\<lambda>ax1.
     bind_err (subplot ''Net Jerk vs Time''
                 [(''Net Jerk'', jerk_times_norm d, jerk d)]) (\<lambda>ax2.
     bind_err (subplot ''Accelerations (X, Y, Z) vs Time''
                 [(''Accel X'', times_norm d, c_accel_x c),
                  (''Accel Y'', times_norm d, c_accel_y c),
                  (''Accel Z'', times_norm d, c_accel_z c)]) (\<lambda>ax3.
     bind_err (subplot ''Angles (Yaw, Pitch, Roll) vs Time''
                 [(''Yaw'', times_norm d, c_yaws c),
                  (''Pitch'', times_norm d, c_pitches c),
                  (''Roll'', times_norm d, c_rolls c)]) (\<lambda>ax4.
     bind_err (subplot ''Angular Velocities (Yaw, Pitch, Roll) vs Time''
                 [(''Yaw Rate'', deriv_times_norm d, yaw_rate d),
                  (''Pitch Rate'', deriv_times_norm d, pitch_rate d),
                  (''Roll Rate'', deriv_times_norm d, roll_rate d)]) (\<lambda>ax5.
     Inr [ax1, ax2, ax3, ax4, ax5])))))"

text \<open>
  What a run does to the outside world, in order: it opens the input for reading, it
  prints a line, it saves the figure to a path. The file system is a map from a path to
  the records of the file there; every existing path is taken to be a readable text
  file.
\<close>

datatype event = OpenRead string | Print string | SaveFig string "chart list"

type_synonym filesystem = "string \<rightharpoonup> string list list"

text \<open>
  \<^verbatim>\<open>generate_graphs\<close> returns the events it caused and either the exception that
  ended it or its Boolean result.
\<close>

definition generate_graphs ::
  "(string \<Rightarrow> fval option) \<Rightarrow> filesystem \<Rightarrow> string \<Rightarrow> string \<Rightarrow> event list \<times> (error + bool)" where
  "generate_graphs float_of fs input_file output_file =
     (case fs input_file of
        None \<Rightarrow> ([], Inl FileNotFoundError)
      | Some rows \<Rightarrow>
          (case parse_csv float_of rows of
             Inl e \<Rightarrow> ([OpenRead input_file], Inl e)
           | Inr c \<Rightarrow>
               if length (c_times c) = 0 then
                 ([OpenRead input_file, Print ''Error: No valid data found in CSV file''],
                  Inr False)
               else
                 (case bind_err (derive c) (render c) of
                    Inl e \<Rightarrow> ([OpenRead input_file], Inl e)
                  | Inr fig \<Rightarrow>
                      ([OpenRead input_file, SaveFig output_file fig,
                        Print (''Graphs saved to '' @ output_file)],
                       Inr True))))"




section \<open>The specification's formulas\<close>


text \<open>The Euclidean norm of three channels: \<^verbatim>\<open>sqrt(ax^2 + ay^2 + az^2)\<close>.\<close>

definition spec_norm :: "fval \<Rightarrow> fval \<Rightarrow> fval \<Rightarrow> fval" where
  "spec_norm x y z = fsqrt (fadd (fadd (fmul x x) (fmul y y)) (fmul z z))"

text \<open>Appending the arrays of one set of columns to those of another.\<close>

definition append_columns :: "columns \<Rightarrow> columns \<Rightarrow> columns" where
  "append_columns st new =
     \<lparr>c_times = c_times st @ c_times new, c_yaws = c_yaws st @ c_yaws new,
      c_pitches = c_pitches st @ c_pitches new, c_rolls = c_rolls st @ c_rolls new,
      c_accel_x = c_accel_x st @ c_accel_x new, c_accel_y = c_accel_y st @ c_accel_y new,
      c_accel_z = c_accel_z st @ c_accel_z new\<rparr>"

text \<open>
  The derived quantities in closed form, for columns of equal length with at least one
  sample.
\<close>

definition net_acc_of :: "columns \<Rightarrow> fval list" where
  "net_acc_of c =
     map (\<lambda>i. spec_norm (c_accel_x c ! i) (c_accel_y c ! i) (c_accel_z c ! i))
       [0..<length (c_times c)]"

definition derived_of :: "columns \<Rightarrow> derived" where
  "derived_of c =
     \<lparr>net_acc = net_acc_of c,
      jerk = map2 fdiv (np_diff (net_acc_of c)) (np_diff (c_times c)),
      jerk_times = drop 1 (c_times c),
      yaw_rate = map2 fdiv (np_diff (c_yaws c)) (np_diff (c_times c)),
      pitch_rate = map2 fdiv (np_diff (c_pitches c)) (np_diff (c_times c)),
      roll_rate = map2 fdiv (np_diff (c_rolls c)) (np_diff (c_times c)),
      deriv_times = drop 1 (c_times c),
      start_time = c_times c ! 0,
      times_norm = np_sub_scalar (c_times c) (c_times c ! 0),
      jerk_times_norm = np_sub_scalar (drop 1 (c_times c)) (c_times c ! 0),
      deriv_times_norm = np_sub_scalar (drop 1 (c_times c)) (c_times c ! 0)\<rparr>"

text \<open>
  The figure in closed form: the five charts with the lines they are given, and the
  time axes (the \<open>x\<close> arrays) of a figure, chart by chart and line by line.
\<close>

definition figure_of :: "columns \<Rightarrow> derived \<Rightarrow> chart list" where
  "figure_of c d =
     [\<lparr>title = ''Net Acceleration vs Time'',
       lines = [(''Net Acceleration'', times_norm d, net_acc d)]\<rparr>,
      \<lparr>title = ''Net Jerk vs Time'',
       lines = [(''Net Jerk'', jerk_times_norm d, jerk d)]\<rparr>,
      \<lparr>title = ''Accelerations (X, Y, Z) vs Time'',
       lines = [(''Accel X'', times_norm d, c_accel_x c),
                (''Accel Y'', times_norm d, c_accel_y c),
                (''Accel Z'', times_norm d, c_accel_z c)]\<rparr>,
      \<lparr>title = ''Angles (Yaw, Pitch, Roll) vs Time'',
       lines = [(''Yaw'', times_norm d, c_yaws c),
                (''Pitch'', times_norm d, c_pitches c),
                (''Roll'', times_norm d, c_rolls c)]\<rparr>,
      \<lparr>title = ''Angular Velocities (Yaw, Pitch, Roll) vs Time'',
       lines = [(''Yaw Rate'', deriv_times_norm d, yaw_rate d),
                (''Pitch Rate'', deriv_times_norm d, pitch_rate d),
                (''Roll Rate'', deriv_times_norm d, roll_rate d)]\<rparr>]"

definition x_axes :: "chart list \<Rightarrow> fval list list list" where
  "x_axes fig = map (\<lambda>ch. map (\<lambda>(label, x, y). x) (lines ch)) fig"

section \<open>Basic facts\<close>

lemma bind_err_Inr [simp]: "bind_err (Inr v) k = k v"
  by (simp add: bind_err_def)

lemma bind_err_Inl [simp]: "bind_err (Inl e) k = Inl e"
  by (simp add: bind_err_def)

lemma np_binop_same_length:
  "length xs = length ys \<Longrightarrow> np_binop f xs ys = Inr (map2 f xs ys)"
  by (simp add: np_binop_def)

lemma length_np_diff [simp]: "length (np_diff xs) = length xs - 1"
  by (simp add: np_diff_def)

lemma nth_np_diff:
  assumes "Suc i < length xs"
  shows "np_diff xs ! i = fsub (xs ! Suc i) (xs ! i)"
proof -
  have "i < length (butlast xs)" using assms by simp
  then show ?thesis using assms by (simp add: np_diff_def nth_butlast)
qed

lemma length_np_square [simp]: "length (np_square xs) = length xs"
  by (simp add: np_square_def)

subsection \<open>The derivation engine in closed form\<close>


lemma calculate_net_jerk_eq:
  "length net = length tms \<Longrightarrow>
   calculate_net_jerk net tms = Inr (map2 fdiv (np_diff net) (np_diff tms), drop 1 tms)"
  by (simp add: calculate_net_jerk_def np_binop_same_length)

lemma calculate_angular_velocities_eq:
  assumes "length yaws = length tms" "length pitches = length tms" "length rolls = length tms"
  shows "calculate_angular_velocities yaws pitches rolls tms =
         Inr (map2 fdiv (np_diff yaws) (np_diff tms), map2 fdiv (np_diff pitches) (np_diff tms),
              map2 fdiv (np_diff rolls) (np_diff tms), drop 1 tms)"
  using assms by (simp add: calculate_angular_velocities_def np_binop_same_length)

lemma calculate_net_acceleration_eq:
  assumes "length ay = length ax" "length az = length ax"
  shows "calculate_net_acceleration ax ay az =
         Inr (map (\<lambda>i. spec_norm (ax ! i) (ay ! i) (az ! i)) [0..<length ax])"
proof -
  have "np_sqrt (map2 fadd (map2 fadd (np_square ax) (np_square ay)) (np_square az)) =
        map (\<lambda>i. spec_norm (ax ! i) (ay ! i) (az ! i)) [0..<length ax]"
    using assms by (intro nth_equalityI) (simp_all add: np_sqrt_def np_square_def spec_norm_def)
  then show ?thesis
    using assms by (simp add: calculate_net_acceleration_def np_binop_same_length)
qed



subsection \<open>The parser in closed form\<close>

lemma parse_fields_valid:
  assumes "valid_row f row"
  shows "parse_fields f row =
         Some (fdiv (field f 0 row) (Fin 1000), field f 1 row, field f 2 row, field f 3 row,
               field f 4 row, field f 5 row, field f 6 row)"
  using assms by (auto simp: valid_row_def parse_fields_def field_def Let_def)

lemma parse_fields_invalid:
  assumes "7 \<le> length row" and "\<not> valid_row f row"
  shows "parse_fields f row = None"
  using assms by (auto simp: valid_row_def parse_fields_def Let_def Option.bind_eq_None_conv)

lemma process_row_valid:
  assumes "valid_row f row"
  shows "process_row f st row =
         st\<lparr>c_times := c_times st @ [fdiv (field f 0 row) (Fin 1000)],
            c_yaws := c_yaws st @ [field f 1 row],
            c_pitches := c_pitches st @ [field f 2 row],
            c_rolls := c_rolls st @ [field f 3 row],
            c_accel_x := c_accel_x st @ [field f 4 row],
            c_accel_y := c_accel_y st @ [field f 5 row],
            c_accel_z := c_accel_z st @ [field f 6 row]\<rparr>"
proof -
  have "7 \<le> length row" using assms by (simp add: valid_row_def)
  then show ?thesis by (simp add: process_row_def parse_fields_valid [OF assms])
qed

lemma process_row_invalid:
  assumes "\<not> valid_row f row"
  shows "process_row f st row = st"
proof (cases "7 \<le> length row")
  case True
  then show ?thesis using assms by (simp add: process_row_def parse_fields_invalid)
next
  case False
  then show ?thesis by (simp add: process_row_def)
qed

lemma foldl_process_row:
  "foldl (process_row f) st rows = append_columns st (columns_of f (filter (valid_row f) rows))"
proof (induction rows arbitrary: st)
  case Nil
  show ?case by (simp add: append_columns_def columns_of_def)
next
  case (Cons row rows)
  show ?case
  proof (cases "valid_row f row")
    case True
    then show ?thesis
      by (simp add: Cons.IH process_row_valid append_columns_def columns_of_def)
  next
    case False
    then show ?thesis
      by (simp add: Cons.IH process_row_invalid)
  qed
qed

lemma append_columns_empty: "append_columns empty_columns c = c"
  by (simp add: append_columns_def empty_columns_def)

lemma parse_csv_Cons:
  "parse_csv f (header # rest) = Inr (columns_of f (filter (valid_row f) rest))"
  by (simp add: parse_csv_def foldl_process_row append_columns_empty)

lemma parse_csv_Nil: "parse_csv f [] = Inl StopIteration"
  by (simp add: parse_csv_def)

lemma parse_csv_InrD:
  assumes "parse_csv f rows = Inr c"
  shows "c = columns_of f (filter (valid_row f) (tl rows)) \<and> rows \<noteq> []"
  using assms by (cases rows) (simp_all add: parse_csv_Nil parse_csv_Cons)

lemma columns_of_lengths:
  "length (c_times (columns_of f kept)) = length kept"
  "length (c_yaws (columns_of f kept)) = length kept"
  "length (c_pitches (columns_of f kept)) = length kept"
  "length (c_rolls (columns_of f kept)) = length kept"
  "length (c_accel_x (columns_of f kept)) = length kept"
  "length (c_accel_y (columns_of f kept)) = length kept"
  "length (c_accel_z (columns_of f kept)) = length kept"
  by (simp_all add: columns_of_def)

lemma parse_csv_lengths:
  assumes "parse_csv f rows = Inr c"
  shows "length (c_yaws c) = length (c_times c)"
    and "length (c_pitches c) = length (c_times c)"
    and "length (c_rolls c) = length (c_times c)"
    and "length (c_accel_x c) = length (c_times c)"
    and "length (c_accel_y c) = length (c_times c)"
    and "length (c_accel_z c) = length (c_times c)"
  using parse_csv_InrD [OF assms] by (simp_all add: columns_of_lengths)

subsection \<open>The derived quantities in closed form\<close>

lemma case_list_nonempty:
  "xs \<noteq> [] \<Longrightarrow> (case xs of [] \<Rightarrow> a | x # ys \<Rightarrow> g x) = g (xs ! 0)"
  by (cases xs) simp_all

lemma length_net_acc_of [simp]: "length (net_acc_of c) = length (c_times c)"
  by (simp add: net_acc_of_def)

lemma nth_net_acc_of:
  "i < length (c_times c) \<Longrightarrow>
   net_acc_of c ! i = spec_norm (c_accel_x c ! i) (c_accel_y c ! i) (c_accel_z c ! i)"
  by (simp add: net_acc_of_def)

lemma derive_eq:
  assumes "length (c_yaws c) = length (c_times c)"
    and "length (c_pitches c) = length (c_times c)"
    and "length (c_rolls c) = length (c_times c)"
    and "length (c_accel_x c) = length (c_times c)"
    and "length (c_accel_y c) = length (c_times c)"
    and "length (c_accel_z c) = length (c_times c)"
    and "c_times c \<noteq> []"
  shows "derive c = Inr (derived_of c)"
proof -
  have na: "calculate_net_acceleration (c_accel_x c) (c_accel_y c) (c_accel_z c) =
        Inr (net_acc_of c)"
    using calculate_net_acceleration_eq [of "c_accel_y c" "c_accel_x c" "c_accel_z c"] assms
    by (simp add: net_acc_of_def)
  have j: "calculate_net_jerk (net_acc_of c) (c_times c) =
           Inr (map2 fdiv (np_diff (net_acc_of c)) (np_diff (c_times c)), drop 1 (c_times c))"
    by (rule calculate_net_jerk_eq) simp
  have a: "calculate_angular_velocities (c_yaws c) (c_pitches c) (c_rolls c) (c_times c) =
           Inr (map2 fdiv (np_diff (c_yaws c)) (np_diff (c_times c)),
                map2 fdiv (np_diff (c_pitches c)) (np_diff (c_times c)),
                map2 fdiv (np_diff (c_rolls c)) (np_diff (c_times c)), drop 1 (c_times c))"
    using assms by (intro calculate_angular_velocities_eq)
  show ?thesis
    by (simp add: derive_def na j a case_list_nonempty [OF assms(7)] derived_of_def)
qed

lemma parse_csv_derive:
  assumes "parse_csv f rows = Inr c" and "c_times c \<noteq> []"
  shows "derive c = Inr (derived_of c)"
  using parse_csv_lengths [OF assms(1)] assms(2) by (intro derive_eq)

lemma parse_csv_net_acc:
  assumes "parse_csv f rows = Inr c"
  shows "calculate_net_acceleration (c_accel_x c) (c_accel_y c) (c_accel_z c) = Inr (net_acc_of c)"
  using calculate_net_acceleration_eq [of "c_accel_y c" "c_accel_x c" "c_accel_z c"]
    parse_csv_lengths [OF assms]
  by (simp add: net_acc_of_def)

subsection \<open>Conversions of the strings used in the examples\<close>

lemmas py_float_defs = py_float_def strip_def is_space_def split_sign_def to_lower_def
  parse_decimal_def is_digit_def parse_exponent_def digits_val_def pow10_def

lemma py_float_simps:
  "py_float ''0'' = Some (Fin 0)"
  "py_float ''1'' = Some (Fin 1)"
  "py_float ''3'' = Some (Fin 3)"
  "py_float ''4'' = Some (Fin 4)"
  "py_float ''90'' = Some (Fin 90)"
  "py_float ''1000'' = Some (Fin 1000)"
  "py_float ''2000'' = Some (Fin 2000)"
  "py_float ''nan'' = Some NaN"
  "py_float ''inf'' = Some PInf"
  "py_float ''x'' = None"
  by (simp_all add: py_float_defs)

text \<open>Unfolding the parser and the engine on a concrete input.\<close>

lemmas run_defs = parse_csv_def process_row_def parse_fields_def empty_columns_def

lemmas engine_defs = derive_def calculate_net_acceleration_def calculate_net_jerk_def
  calculate_angular_velocities_def np_binop_def np_square_def np_sqrt_def np_sub_scalar_def
  np_diff_def fsub_def

section \<open>Net acceleration\<close>



subsection \<open>Sign of the net acceleration\<close>

lemma fmul_self_nonneg:
  assumes "\<not> is_nan x"
  shows "(\<exists>a. 0 \<le> a \<and> fmul x x = Fin a) \<or> fmul x x = PInf"
  using assms by (cases x) simp_all

lemma fadd_nonneg:
  assumes "(\<exists>a. 0 \<le> a \<and> u = Fin a) \<or> u = PInf"
    and "(\<exists>b. 0 \<le> b \<and> v = Fin b) \<or> v = PInf"
  shows "(\<exists>s. 0 \<le> s \<and> fadd u v = Fin s) \<or> fadd u v = PInf"
  using assms by auto

lemma fsqrt_nonneg:
  assumes "(\<exists>a. 0 \<le> a \<and> u = Fin a) \<or> u = PInf"
  shows "fge (fsqrt u) (Fin 0)"
  using assms by auto

lemma spec_norm_nonneg:
  assumes "\<not> is_nan x" "\<not> is_nan y" "\<not> is_nan z"
  shows "fge (spec_norm x y z) (Fin 0)"
  unfolding spec_norm_def
  by (intro fsqrt_nonneg fadd_nonneg fmul_self_nonneg assms)

text \<open>
  C9, as amended. For every parsed dataset, the net acceleration is computed without
  error and is non-negative (\<^verbatim>\<open>net_acc[i] >= 0\<close> holds) at every index \<open>i\<close> at
  which none of the three acceleration values is \<open>NaN\<close>.
\<close>

theorem net_acceleration_nonnegative_unless_nan:
  assumes "parse_csv float_of rows = Inr c"
  shows "\<exists>na. calculate_net_acceleration (c_accel_x c) (c_accel_y c) (c_accel_z c) = Inr na
           \<and> length na = length (c_times c)
           \<and> (\<forall>i < length na.
                 \<not> is_nan (c_accel_x c ! i) \<and> \<not> is_nan (c_accel_y c ! i)
                 \<and> \<not> is_nan (c_accel_z c ! i)
                 \<longrightarrow> fge (na ! i) (Fin 0))"
proof (intro exI [of _ "net_acc_of c"] conjI allI impI)
  show "calculate_net_acceleration (c_accel_x c) (c_accel_y c) (c_accel_z c) = Inr (net_acc_of c)"
    by (rule parse_csv_net_acc [OF assms])
  show "length (net_acc_of c) = length (c_times c)" by simp
next
  fix i
  assume i: "i < length (net_acc_of c)"
    and n: "\<not> is_nan (c_accel_x c ! i) \<and> \<not> is_nan (c_accel_y c ! i) \<and> \<not> is_nan (c_accel_z c ! i)"
  from i have "net_acc_of c ! i = spec_norm (c_accel_x c ! i) (c_accel_y c ! i) (c_accel_z c ! i)"
    by (simp add: nth_net_acc_of)
  with n show "fge (net_acc_of c ! i) (Fin 0)"
    by (simp add: spec_norm_nonneg)
qed

text \<open>The file with the single sample \<open>(0, 0, 0, 0, 3, 4, 0)\<close>.\<close>

theorem net_acceleration_nonnegative_unless_nan_witness:
  "parse_csv py_float
     [[''time_ms'', ''yaw'', ''pitch'', ''roll'', ''accel_x'', ''accel_y'', ''accel_z''],
      [''0'', ''0'', ''0'', ''0'', ''3'', ''4'', ''0'']] =
    Inr \<lparr>c_times = [Fin 0], c_yaws = [Fin 0], c_pitches = [Fin 0], c_rolls = [Fin 0],
      c_accel_x = [Fin 3], c_accel_y = [Fin 4], c_accel_z = [Fin 0]\<rparr>
   \<and> (\<exists>na. calculate_net_acceleration [Fin 3] [Fin 4] [Fin 0] = Inr na \<and> fge (na ! 0) (Fin 0))"
proof -
  have p: "parse_csv py_float
     [[''time_ms'', ''yaw'', ''pitch'', ''roll'', ''accel_x'', ''accel_y'', ''accel_z''],
      [''0'', ''0'', ''0'', ''0'', ''3'', ''4'', ''0'']] =
    Inr \<lparr>c_times = [Fin 0], c_yaws = [Fin 0], c_pitches = [Fin 0], c_rolls = [Fin 0],
      c_accel_x = [Fin 3], c_accel_y = [Fin 4], c_accel_z = [Fin 0]\<rparr>"
    by (simp add: run_defs py_float_simps)
  from net_acceleration_nonnegative_unless_nan [OF p]
  obtain na where "calculate_net_acceleration [Fin 3] [Fin 4] [Fin 0] = Inr na"
    and "length na = 1"
    and "\<forall>i < length na. \<not> is_nan ([Fin 3] ! i) \<and> \<not> is_nan ([Fin 4] ! i) \<and> \<not> is_nan ([Fin 0] ! i)
           \<longrightarrow> fge (na ! i) (Fin 0)"
    by auto
  then have "calculate_net_acceleration [Fin 3] [Fin 4] [Fin 0] = Inr na \<and> fge (na ! 0) (Fin 0)"
    by simp
  with p show ?thesis by blast
qed

text \<open>
  C9 as stated fails: \<^verbatim>\<open>float("nan")\<close> converts, so the row
  \<open>(0, 0, 0, 0, nan, 0, 0)\<close> is kept; its net acceleration is \<open>NaN\<close>, and
  \<^verbatim>\<open>nan >= 0\<close> is false.
\<close>

theorem net_acceleration_nan_counterexample:
  "parse_csv py_float
     [[''time_ms'', ''yaw'', ''pitch'', ''roll'', ''accel_x'', ''accel_y'', ''accel_z''],
      [''0'', ''0'', ''0'', ''0'', ''nan'', ''0'', ''0'']] =
    Inr \<lparr>c_times = [Fin 0], c_yaws = [Fin 0], c_pitches = [Fin 0], c_rolls = [Fin 0],
      c_accel_x = [NaN], c_accel_y = [Fin 0], c_accel_z = [Fin 0]\<rparr>
   \<and> calculate_net_acceleration [NaN] [Fin 0] [Fin 0] = Inr [NaN]
   \<and> \<not> fge ([NaN] ! 0) (Fin 0)"
  by (simp add: run_defs py_float_simps engine_defs)

section \<open>Net jerk and angular rates\<close>

lemma derived_of_simps:
  "net_acc (derived_of c) = net_acc_of c"
  "jerk (derived_of c) = map2 fdiv (np_diff (net_acc_of c)) (np_diff (c_times c))"
  "jerk_times (derived_of c) = drop 1 (c_times c)"
  "yaw_rate (derived_of c) = map2 fdiv (np_diff (c_yaws c)) (np_diff (c_times c))"
  "pitch_rate (derived_of c) = map2 fdiv (np_diff (c_pitches c)) (np_diff (c_times c))"
  "roll_rate (derived_of c) = map2 fdiv (np_diff (c_rolls c)) (np_diff (c_times c))"
  "deriv_times (derived_of c) = drop 1 (c_times c)"
  "start_time (derived_of c) = c_times c ! 0"
  "times_norm (derived_of c) = np_sub_scalar (c_times c) (c_times c ! 0)"
  "jerk_times_norm (derived_of c) = np_sub_scalar (drop 1 (c_times c)) (c_times c ! 0)"
  "deriv_times_norm (derived_of c) = np_sub_scalar (drop 1 (c_times c)) (c_times c ! 0)"
  by (simp_all add: derived_of_def)





text \<open>
  C10. For every parsed dataset of N >= 1 samples, the time axis that
  \<^verbatim>\<open>calculate_net_jerk\<close> returns and the time axis that
  \<^verbatim>\<open>calculate_angular_velocities\<close> returns are the same sequence: both are
  \<^verbatim>\<open>times[1:]\<close>, of length N - 1.
\<close>

theorem derivative_time_axes_coincide:
  assumes "parse_csv float_of rows = Inr c" and "1 \<le> length (c_times c)"
  shows "\<exists>d. derive c = Inr d
     \<and> calculate_net_jerk (net_acc d) (c_times c) = Inr (jerk d, jerk_times d)
     \<and> calculate_angular_velocities (c_yaws c) (c_pitches c) (c_rolls c) (c_times c) =
         Inr (yaw_rate d, pitch_rate d, roll_rate d, deriv_times d)
     \<and> jerk_times d = drop 1 (c_times c)
     \<and> deriv_times d = drop 1 (c_times c)
     \<and> jerk_times d = deriv_times d
     \<and> length (jerk_times d) = length (c_times c) - 1"
proof -
  note lens = parse_csv_lengths [OF assms(1)]
  have ne: "c_times c \<noteq> []" using assms(2) by auto
  have j: "calculate_net_jerk (net_acc_of c) (c_times c) =
           Inr (map2 fdiv (np_diff (net_acc_of c)) (np_diff (c_times c)), drop 1 (c_times c))"
    by (rule calculate_net_jerk_eq) simp
  have a: "calculate_angular_velocities (c_yaws c) (c_pitches c) (c_rolls c) (c_times c) =
           Inr (map2 fdiv (np_diff (c_yaws c)) (np_diff (c_times c)),
                map2 fdiv (np_diff (c_pitches c)) (np_diff (c_times c)),
                map2 fdiv (np_diff (c_rolls c)) (np_diff (c_times c)), drop 1 (c_times c))"
    using lens by (intro calculate_angular_velocities_eq)
  show ?thesis
  proof (intro exI [of _ "derived_of c"] conjI)
    show "derive c = Inr (derived_of c)"
      by (rule parse_csv_derive [OF assms(1) ne])
    show "calculate_net_jerk (net_acc (derived_of c)) (c_times c) =
          Inr (jerk (derived_of c), jerk_times (derived_of c))"
      using j by (simp add: derived_of_simps)
    show "calculate_angular_velocities (c_yaws c) (c_pitches c) (c_rolls c) (c_times c) =
         Inr (yaw_rate (derived_of c), pitch_rate (derived_of c), roll_rate (derived_of c),
              deriv_times (derived_of c))"
      using a by (simp add: derived_of_simps)
  qed (simp_all add: derived_of_simps)
qed

text \<open>Two samples at 1 s and 2 s: both axes are the single time 2 s.\<close>

theorem derivative_time_axes_coincide_witness:
  "parse_csv py_float
     [[''time_ms'', ''yaw'', ''pitch'', ''roll'', ''accel_x'', ''accel_y'', ''accel_z''],
      [''1000'', ''0'', ''0'', ''0'', ''0'', ''1'', ''0''],
      [''2000'', ''0'', ''0'', ''0'', ''0'', ''1'', ''0'']] =
    Inr \<lparr>c_times = [Fin 1, Fin 2], c_yaws = [Fin 0, Fin 0], c_pitches = [Fin 0, Fin 0],
      c_rolls = [Fin 0, Fin 0], c_accel_x = [Fin 0, Fin 0], c_accel_y = [Fin 1, Fin 1],
      c_accel_z = [Fin 0, Fin 0]\<rparr>
   \<and> (\<exists>d. derive \<lparr>c_times = [Fin 1, Fin 2], c_yaws = [Fin 0, Fin 0], c_pitches = [Fin 0, Fin 0],
              c_rolls = [Fin 0, Fin 0], c_accel_x = [Fin 0, Fin 0], c_accel_y = [Fin 1, Fin 1],
              c_accel_z = [Fin 0, Fin 0]\<rparr> = Inr d
          \<and> jerk_times d = [Fin 2] \<and> deriv_times d = [Fin 2])"
proof -
  let ?c = "\<lparr>c_times = [Fin 1, Fin 2], c_yaws = [Fin 0, Fin 0], c_pitches = [Fin 0, Fin 0],
      c_rolls = [Fin 0, Fin 0], c_accel_x = [Fin 0, Fin 0], c_accel_y = [Fin 1, Fin 1],
      c_accel_z = [Fin 0, Fin 0]\<rparr>"
  have p: "parse_csv py_float
     [[''time_ms'', ''yaw'', ''pitch'', ''roll'', ''accel_x'', ''accel_y'', ''accel_z''],
      [''1000'', ''0'', ''0'', ''0'', ''0'', ''1'', ''0''],
      [''2000'', ''0'', ''0'', ''0'', ''0'', ''1'', ''0'']] = Inr ?c"
    by (simp add: run_defs py_float_simps)
  have n: "1 \<le> length (c_times ?c)" by simp
  from derivative_time_axes_coincide [OF p n]
  have "\<exists>d. derive ?c = Inr d \<and> jerk_times d = [Fin 2] \<and> deriv_times d = [Fin 2]"
    by auto
  with p show ?thesis by blast
qed

subsection \<open>Equal adjacent timestamps\<close>

lemma fsub_self: "fsub t t = (if is_finite t then Fin 0 else NaN)"
  by (cases t) (simp_all add: fsub_def)

lemma fdiv_zero_not_finite: "\<not> is_finite (fdiv x (Fin 0))"
  by (cases x) (simp_all add: signed_inf_def)

lemma fdiv_nan_not_finite: "\<not> is_finite (fdiv x NaN)"
  by (cases x) simp_all

lemma fdiv_fsub_self_not_finite: "\<not> is_finite (fdiv x (fsub t t))"
  by (simp add: fsub_self fdiv_zero_not_finite fdiv_nan_not_finite)

text \<open>
  C8. For every parsed dataset in which samples \<open>i\<close> and \<open>i + 1\<close> carry the same
  timestamp, the derivative computations raise nothing: the derived quantities are
  returned, the time difference at \<open>i\<close> is \<open>t - t\<close> (zero for a finite \<open>t\<close>), and
  entry \<open>i\<close> of net jerk and of each angular rate is the quotient by that difference,
  which is an infinity or \<open>NaN\<close>, never a finite number.
\<close>

theorem duplicate_timestamps_divide_unguarded:
  assumes "parse_csv float_of rows = Inr c"
    and "Suc i < length (c_times c)"
    and "c_times c ! Suc i = c_times c ! i"
  shows "\<exists>d. derive c = Inr d
     \<and> calculate_net_jerk (net_acc d) (c_times c) = Inr (jerk d, jerk_times d)
     \<and> calculate_angular_velocities (c_yaws c) (c_pitches c) (c_rolls c) (c_times c) =
         Inr (yaw_rate d, pitch_rate d, roll_rate d, deriv_times d)
     \<and> np_diff (c_times c) ! i = fsub (c_times c ! i) (c_times c ! i)
     \<and> (is_finite (c_times c ! i) \<longrightarrow> np_diff (c_times c) ! i = Fin 0)
     \<and> (\<forall>(series, r) \<in> set [(net_acc d, jerk d), (c_yaws c, yaw_rate d),
                                (c_pitches c, pitch_rate d), (c_rolls c, roll_rate d)].
           r ! i = fdiv (np_diff series ! i) (np_diff (c_times c) ! i)
         \<and> \<not> is_finite (r ! i))"
proof -
  note lens = parse_csv_lengths [OF assms(1)]
  have ne: "c_times c \<noteq> []" using assms(2) by auto
  have j: "calculate_net_jerk (net_acc_of c) (c_times c) =
           Inr (map2 fdiv (np_diff (net_acc_of c)) (np_diff (c_times c)), drop 1 (c_times c))"
    by (rule calculate_net_jerk_eq) simp
  have a: "calculate_angular_velocities (c_yaws c) (c_pitches c) (c_rolls c) (c_times c) =
           Inr (map2 fdiv (np_diff (c_yaws c)) (np_diff (c_times c)),
                map2 fdiv (np_diff (c_pitches c)) (np_diff (c_times c)),
                map2 fdiv (np_diff (c_rolls c)) (np_diff (c_times c)), drop 1 (c_times c))"
    using lens by (intro calculate_angular_velocities_eq)
  have dt: "np_diff (c_times c) ! i = fsub (c_times c ! i) (c_times c ! i)"
    using nth_np_diff [OF assms(2)] assms(3) by simp
  have req: "map2 fdiv (np_diff series) (np_diff (c_times c)) ! i =
             fdiv (np_diff series ! i) (np_diff (c_times c) ! i)"
    if "length series = length (c_times c)" for series
    using that assms(2) by simp
  have nf: "\<not> is_finite (fdiv x (np_diff (c_times c) ! i))" for x
    by (simp add: dt fdiv_fsub_self_not_finite)
  show ?thesis
  proof (intro exI [of _ "derived_of c"] conjI)
    show "derive c = Inr (derived_of c)"
      by (rule parse_csv_derive [OF assms(1) ne])
    show "calculate_net_jerk (net_acc (derived_of c)) (c_times c) =
          Inr (jerk (derived_of c), jerk_times (derived_of c))"
      using j by (simp add: derived_of_simps)
    show "calculate_angular_velocities (c_yaws c) (c_pitches c) (c_rolls c) (c_times c) =
         Inr (yaw_rate (derived_of c), pitch_rate (derived_of c), roll_rate (derived_of c),
              deriv_times (derived_of c))"
      using a by (simp add: derived_of_simps)
    show "np_diff (c_times c) ! i = fsub (c_times c ! i) (c_times c ! i)" by (rule dt)
    show "is_finite (c_times c ! i) \<longrightarrow> np_diff (c_times c) ! i = Fin 0"
      by (simp add: dt fsub_self)
    show "\<forall>(series, r) \<in> set [(net_acc (derived_of c), jerk (derived_of c)),
                                (c_yaws c, yaw_rate (derived_of c)),
                                (c_pitches c, pitch_rate (derived_of c)),
                                (c_rolls c, roll_rate (derived_of c))].
           r ! i = fdiv (np_diff series ! i) (np_diff (c_times c) ! i)
         \<and> \<not> is_finite (r ! i)"
      unfolding derived_of_simps by (simp add: req lens nf)
  qed
qed

text \<open>
  Two samples, both at 1000 ms: \<open>(1000, 0, 0, 0, 0, 0, 0)\<close> and
  \<open>(1000, 90, 0, 0, 3, 4, 0)\<close>.
\<close>

theorem duplicate_timestamps_divide_unguarded_witness:
  "parse_csv py_float
     [[''time_ms'', ''yaw'', ''pitch'', ''roll'', ''accel_x'', ''accel_y'', ''accel_z''],
      [''1000'', ''0'', ''0'', ''0'', ''0'', ''0'', ''0''],
      [''1000'', ''90'', ''0'', ''0'', ''3'', ''4'', ''0'']] =
    Inr \<lparr>c_times = [Fin 1, Fin 1], c_yaws = [Fin 0, Fin 90], c_pitches = [Fin 0, Fin 0],
      c_rolls = [Fin 0, Fin 0], c_accel_x = [Fin 0, Fin 3], c_accel_y = [Fin 0, Fin 4],
      c_accel_z = [Fin 0, Fin 0]\<rparr>
   \<and> [Fin 1, Fin 1] ! Suc 0 = [Fin 1, Fin 1] ! 0
   \<and> (\<exists>d. derive \<lparr>c_times = [Fin 1, Fin 1], c_yaws = [Fin 0, Fin 90], c_pitches = [Fin 0, Fin 0],
              c_rolls = [Fin 0, Fin 0], c_accel_x = [Fin 0, Fin 3], c_accel_y = [Fin 0, Fin 4],
              c_accel_z = [Fin 0, Fin 0]\<rparr> = Inr d
          \<and> np_diff [Fin 1, Fin 1] ! 0 = Fin 0
          \<and> \<not> is_finite (jerk d ! 0) \<and> \<not> is_finite (yaw_rate d ! 0)
          \<and> \<not> is_finite (pitch_rate d ! 0) \<and> \<not> is_finite (roll_rate d ! 0))"
proof -
  let ?c = "\<lparr>c_times = [Fin 1, Fin 1], c_yaws = [Fin 0, Fin 90], c_pitches = [Fin 0, Fin 0],
      c_rolls = [Fin 0, Fin 0], c_accel_x = [Fin 0, Fin 3], c_accel_y = [Fin 0, Fin 4],
      c_accel_z = [Fin 0, Fin 0]\<rparr>"
  have p: "parse_csv py_float
     [[''time_ms'', ''yaw'', ''pitch'', ''roll'', ''accel_x'', ''accel_y'', ''accel_z''],
      [''1000'', ''0'', ''0'', ''0'', ''0'', ''0'', ''0''],
      [''1000'', ''90'', ''0'', ''0'', ''3'', ''4'', ''0'']] = Inr ?c"
    by (simp add: run_defs py_float_simps)
  have n: "Suc 0 < length (c_times ?c)" by simp
  have e: "c_times ?c ! Suc 0 = c_times ?c ! 0" by simp
  from duplicate_timestamps_divide_unguarded [OF p n e]
  have "\<exists>d. derive ?c = Inr d
          \<and> np_diff [Fin 1, Fin 1] ! 0 = Fin 0
          \<and> \<not> is_finite (jerk d ! 0) \<and> \<not> is_finite (yaw_rate d ! 0)
          \<and> \<not> is_finite (pitch_rate d ! 0) \<and> \<not> is_finite (roll_rate d ! 0)"
    by auto
  with p show ?thesis by simp
qed

section \<open>The figure\<close>

lemma render_eq:
  assumes "length (c_yaws c) = length (c_times c)"
    and "length (c_pitches c) = length (c_times c)"
    and "length (c_rolls c) = length (c_times c)"
    and "length (c_accel_x c) = length (c_times c)"
    and "length (c_accel_y c) = length (c_times c)"
    and "length (c_accel_z c) = length (c_times c)"
  shows "render c (derived_of c) = Inr (figure_of c (derived_of c))"
  using assms
  by (simp add: render_def subplot_def plot_def figure_of_def derived_of_simps np_sub_scalar_def)

lemma parse_csv_render:
  assumes "parse_csv f rows = Inr c"
  shows "render c (derived_of c) = Inr (figure_of c (derived_of c))"
  using parse_csv_lengths [OF assms] by (intro render_eq)

lemma x_axes_figure_of:
  "x_axes (figure_of c d) =
     [[times_norm d], [jerk_times_norm d],
      [times_norm d, times_norm d, times_norm d],
      [times_norm d, times_norm d, times_norm d],
      [deriv_times_norm d, deriv_times_norm d, deriv_times_norm d]]"
  by (simp add: x_axes_def figure_of_def)

section \<open>Time normalisation\<close>

lemma nth_np_sub_scalar_self:
  assumes "tms \<noteq> []" and "is_finite (tms ! 0)"
  shows "np_sub_scalar tms (tms ! 0) ! 0 = Fin 0"
  using assms by (cases tms) (simp_all add: np_sub_scalar_def fsub_self)

text \<open>
  C3, as amended. For every parsed dataset with at least one sample, the derived
  quantities and the figure are produced without error, and all three chart time axes
  (the sample-aligned axis and the two derivative axes of length N - 1) are normalised by
  subtracting the same value, the first sample's timestamp in seconds \<open>time[0]\<close>, not
  each axis's own first element; the five charts use exactly these three axes. When
  \<open>time[0]\<close> is finite, the first entry of the sample-aligned axis is exactly 0.
\<close>

theorem time_axes_share_start_time:
  assumes "parse_csv float_of rows = Inr c" and "1 \<le> length (c_times c)"
  shows "\<exists>d fig. derive c = Inr d \<and> render c d = Inr fig
     \<and> start_time d = c_times c ! 0
     \<and> times_norm d = map (\<lambda>t. fsub t (c_times c ! 0)) (c_times c)
     \<and> jerk_times_norm d = map (\<lambda>t. fsub t (c_times c ! 0)) (jerk_times d)
     \<and> deriv_times_norm d = map (\<lambda>t. fsub t (c_times c ! 0)) (deriv_times d)
     \<and> length (jerk_times_norm d) = length (c_times c) - 1
     \<and> length (deriv_times_norm d) = length (c_times c) - 1
     \<and> x_axes fig =
         [[times_norm d], [jerk_times_norm d],
          [times_norm d, times_norm d, times_norm d],
          [times_norm d, times_norm d, times_norm d],
          [deriv_times_norm d, deriv_times_norm d, deriv_times_norm d]]
     \<and> (is_finite (c_times c ! 0) \<longrightarrow> times_norm d ! 0 = Fin 0)"
proof -
  have ne: "c_times c \<noteq> []" using assms(2) by auto
  show ?thesis
  proof (intro exI [of _ "derived_of c"] exI [of _ "figure_of c (derived_of c)"] conjI)
    show "derive c = Inr (derived_of c)"
      by (rule parse_csv_derive [OF assms(1) ne])
    show "render c (derived_of c) = Inr (figure_of c (derived_of c))"
      by (rule parse_csv_render [OF assms(1)])
    show "x_axes (figure_of c (derived_of c)) =
         [[times_norm (derived_of c)], [jerk_times_norm (derived_of c)],
          [times_norm (derived_of c), times_norm (derived_of c), times_norm (derived_of c)],
          [times_norm (derived_of c), times_norm (derived_of c), times_norm (derived_of c)],
          [deriv_times_norm (derived_of c), deriv_times_norm (derived_of c),
           deriv_times_norm (derived_of c)]]"
      by (rule x_axes_figure_of)
    show "is_finite (c_times c ! 0) \<longrightarrow> times_norm (derived_of c) ! 0 = Fin 0"
      by (simp add: derived_of_simps nth_np_sub_scalar_self [OF ne])
  qed (simp_all add: derived_of_simps np_sub_scalar_def)
qed

text \<open>Two samples at 1 s and 2 s: the axes are \<open>[0, 1]\<close>, \<open>[1]\<close> and \<open>[1]\<close>.\<close>

theorem time_axes_share_start_time_witness:
  "parse_csv py_float
     [[''time_ms'', ''yaw'', ''pitch'', ''roll'', ''accel_x'', ''accel_y'', ''accel_z''],
      [''1000'', ''0'', ''0'', ''0'', ''0'', ''1'', ''0''],
      [''2000'', ''0'', ''0'', ''0'', ''0'', ''1'', ''0'']] =
    Inr \<lparr>c_times = [Fin 1, Fin 2], c_yaws = [Fin 0, Fin 0], c_pitches = [Fin 0, Fin 0],
      c_rolls = [Fin 0, Fin 0], c_accel_x = [Fin 0, Fin 0], c_accel_y = [Fin 1, Fin 1],
      c_accel_z = [Fin 0, Fin 0]\<rparr>
   \<and> is_finite ([Fin 1, Fin 2] ! 0)
   \<and> (\<exists>d. derive \<lparr>c_times = [Fin 1, Fin 2], c_yaws = [Fin 0, Fin 0], c_pitches = [Fin 0, Fin 0],
              c_rolls = [Fin 0, Fin 0], c_accel_x = [Fin 0, Fin 0], c_accel_y = [Fin 1, Fin 1],
              c_accel_z = [Fin 0, Fin 0]\<rparr> = Inr d
          \<and> times_norm d = [Fin 0, Fin 1] \<and> jerk_times_norm d = [Fin 1]
          \<and> deriv_times_norm d = [Fin 1] \<and> times_norm d ! 0 = Fin 0)"
proof -
  let ?c = "\<lparr>c_times = [Fin 1, Fin 2], c_yaws = [Fin 0, Fin 0], c_pitches = [Fin 0, Fin 0],
      c_rolls = [Fin 0, Fin 0], c_accel_x = [Fin 0, Fin 0], c_accel_y = [Fin 1, Fin 1],
      c_accel_z = [Fin 0, Fin 0]\<rparr>"
  have p: "parse_csv py_float
     [[''time_ms'', ''yaw'', ''pitch'', ''roll'', ''accel_x'', ''accel_y'', ''accel_z''],
      [''1000'', ''0'', ''0'', ''0'', ''0'', ''1'', ''0''],
      [''2000'', ''0'', ''0'', ''0'', ''0'', ''1'', ''0'']] = Inr ?c"
    by (simp add: run_defs py_float_simps)
  have n: "1 \<le> length (c_times ?c)" by simp
  from time_axes_share_start_time [OF p n]
  obtain d where d: "derive ?c = Inr d"
    and t: "times_norm d = map (\<lambda>t. fsub t (c_times ?c ! 0)) (c_times ?c)"
    and j: "jerk_times_norm d = map (\<lambda>t. fsub t (c_times ?c ! 0)) (jerk_times d)"
    and a: "deriv_times_norm d = map (\<lambda>t. fsub t (c_times ?c ! 0)) (deriv_times d)"
    and z: "is_finite (c_times ?c ! 0) \<longrightarrow> times_norm d ! 0 = Fin 0"
    by blast
  from d have jt: "jerk_times d = [Fin 2]" "deriv_times d = [Fin 2]"
    by (auto simp: engine_defs spec_norm_def)
  have "times_norm d = [Fin 0, Fin 1] \<and> jerk_times_norm d = [Fin 1]
          \<and> deriv_times_norm d = [Fin 1] \<and> times_norm d ! 0 = Fin 0"
    using t j a z jt by (simp add: fsub_def)
  with d p show ?thesis by simp
qed

text \<open>
  C3 as stated fails: \<^verbatim>\<open>float("inf")\<close> converts, so a row whose time field is
  \<^verbatim>\<open>inf\<close> is kept; the start time is infinite and \<open>inf - inf\<close> is \<open>NaN\<close>, so
  the first entry of the sample-aligned axis is \<open>NaN\<close>, not 0.
\<close>

theorem first_time_not_zero_counterexample:
  "parse_csv py_float
     [[''time_ms'', ''yaw'', ''pitch'', ''roll'', ''accel_x'', ''accel_y'', ''accel_z''],
      [''inf'', ''0'', ''0'', ''0'', ''0'', ''1'', ''0'']] =
    Inr \<lparr>c_times = [PInf], c_yaws = [Fin 0], c_pitches = [Fin 0],
      c_rolls = [Fin 0], c_accel_x = [Fin 0], c_accel_y = [Fin 1], c_accel_z = [Fin 0]\<rparr>
   \<and> derive \<lparr>c_times = [PInf], c_yaws = [Fin 0], c_pitches = [Fin 0],
      c_rolls = [Fin 0], c_accel_x = [Fin 0], c_accel_y = [Fin 1], c_accel_z = [Fin 0]\<rparr> =
    Inr \<lparr>net_acc = [Fin 1], jerk = [], jerk_times = [], yaw_rate = [], pitch_rate = [],
      roll_rate = [], deriv_times = [], start_time = PInf, times_norm = [NaN],
      jerk_times_norm = [], deriv_times_norm = []\<rparr>
   \<and> [NaN] ! 0 \<noteq> Fin 0"
  by (simp add: run_defs py_float_simps engine_defs)


section \<open>The concrete scenario\<close>

text \<open>
  C7, as amended. For the input file made of any header followed by the rows
  \<open>(0, 0, 0, 0, 1, 0, 0)\<close> and \<open>(1000, 90, 0, 0, 0, 1, 0)\<close>, the pipeline computes
  \<open>net_acc = [1, 1]\<close>, \<open>jerk = [0]\<close>, \<open>yaw_rate = [90]\<close>, the normalised times
  \<open>[0, 1]\<close> for the acceleration series and \<open>[1]\<close> for the derivative series, and
  \<^verbatim>\<open>generate_graphs\<close> saves the figure drawn from them and returns \<^verbatim>\<open>True\<close>.
\<close>

theorem concrete_scenario:
  assumes "fs input_file = Some
     [header,
      [''0'', ''0'', ''0'', ''0'', ''1'', ''0'', ''0''],
      [''1000'', ''90'', ''0'', ''0'', ''0'', ''1'', ''0'']]"
  shows "parse_csv py_float
     [header,
      [''0'', ''0'', ''0'', ''0'', ''1'', ''0'', ''0''],
      [''1000'', ''90'', ''0'', ''0'', ''0'', ''1'', ''0'']] =
    Inr \<lparr>c_times = [Fin 0, Fin 1], c_yaws = [Fin 0, Fin 90], c_pitches = [Fin 0, Fin 0],
      c_rolls = [Fin 0, Fin 0], c_accel_x = [Fin 1, Fin 0], c_accel_y = [Fin 0, Fin 1],
      c_accel_z = [Fin 0, Fin 0]\<rparr>
   \<and> derive \<lparr>c_times = [Fin 0, Fin 1], c_yaws = [Fin 0, Fin 90], c_pitches = [Fin 0, Fin 0],
      c_rolls = [Fin 0, Fin 0], c_accel_x = [Fin 1, Fin 0], c_accel_y = [Fin 0, Fin 1],
      c_accel_z = [Fin 0, Fin 0]\<rparr> =
    Inr \<lparr>net_acc = [Fin 1, Fin 1], jerk = [Fin 0], jerk_times = [Fin 1],
      yaw_rate = [Fin 90], pitch_rate = [Fin 0], roll_rate = [Fin 0], deriv_times = [Fin 1],
      start_time = Fin 0, times_norm = [Fin 0, Fin 1],
      jerk_times_norm = [Fin 1], deriv_times_norm = [Fin 1]\<rparr>
   \<and> generate_graphs py_float fs input_file output_file =
      ([OpenRead input_file,
        SaveFig output_file
          [\<lparr>title = ''Net Acceleration vs Time'',
            lines = [(''Net Acceleration'', [Fin 0, Fin 1], [Fin 1, Fin 1])]\<rparr>,
           \<lparr>title = ''Net Jerk vs Time'',
            lines = [(''Net Jerk'', [Fin 1], [Fin 0])]\<rparr>,
           \<lparr>title = ''Accelerations (X, Y, Z) vs Time'',
            lines = [(''Accel X'', [Fin 0, Fin 1], [Fin 1, Fin 0]),
                     (''Accel Y'', [Fin 0, Fin 1], [Fin 0, Fin 1]),
                     (''Accel Z'', [Fin 0, Fin 1], [Fin 0, Fin 0])]\<rparr>,
           \<lparr>title = ''Angles (Yaw, Pitch, Roll) vs Time'',
            lines = [(''Yaw'', [Fin 0, Fin 1], [Fin 0, Fin 90]),
                     (''Pitch'', [Fin 0, Fin 1], [Fin 0, Fin 0]),
                     (''Roll'', [Fin 0, Fin 1], [Fin 0, Fin 0])]\<rparr>,
           \<lparr>title = ''Angular Velocities (Yaw, Pitch, Roll) vs Time'',
            lines = [(''Yaw Rate'', [Fin 1], [Fin 90]),
                     (''Pitch Rate'', [Fin 1], [Fin 0]),
                     (''Roll Rate'', [Fin 1], [Fin 0])]\<rparr>],
        Print (''Graphs saved to '' @ output_file)],
       Inr True)"
proof -
  let ?c = "\<lparr>c_times = [Fin 0, Fin 1], c_yaws = [Fin 0, Fin 90], c_pitches = [Fin 0, Fin 0],
      c_rolls = [Fin 0, Fin 0], c_accel_x = [Fin 1, Fin 0], c_accel_y = [Fin 0, Fin 1],
      c_accel_z = [Fin 0, Fin 0]\<rparr>"
  let ?d = "\<lparr>net_acc = [Fin 1, Fin 1], jerk = [Fin 0], jerk_times = [Fin 1],
      yaw_rate = [Fin 90], pitch_rate = [Fin 0], roll_rate = [Fin 0], deriv_times = [Fin 1],
      start_time = Fin 0, times_norm = [Fin 0, Fin 1],
      jerk_times_norm = [Fin 1], deriv_times_norm = [Fin 1]\<rparr>"
  have p: "parse_csv py_float
     [header,
      [''0'', ''0'', ''0'', ''0'', ''1'', ''0'', ''0''],
      [''1000'', ''90'', ''0'', ''0'', ''0'', ''1'', ''0'']] = Inr ?c"
    by (simp add: run_defs py_float_simps)
  have d: "derive ?c = Inr ?d"
    by (simp add: engine_defs)
  have r: "render ?c ?d = Inr (figure_of ?c ?d)"
    by (simp add: render_def subplot_def plot_def figure_of_def)
  have g: "generate_graphs py_float fs input_file output_file =
      ([OpenRead input_file, SaveFig output_file (figure_of ?c ?d),
        Print (''Graphs saved to '' @ output_file)], Inr True)"
    by (simp add: generate_graphs_def assms p d r)
  show ?thesis
    unfolding g using p d by (simp add: figure_of_def)
qed


text \<open>The scenario read from \<^verbatim>\<open>swing.csv\<close> and saved to \<^verbatim>\<open>swing.png\<close>.\<close>

theorem concrete_scenario_witness:
  "[''swing.csv'' \<mapsto>
      [[''time_ms'', ''yaw'', ''pitch'', ''roll'', ''accel_x'', ''accel_y'', ''accel_z''],
       [''0'', ''0'', ''0'', ''0'', ''1'', ''0'', ''0''],
       [''1000'', ''90'', ''0'', ''0'', ''0'', ''1'', ''0'']]] ''swing.csv'' =
    Some [[''time_ms'', ''yaw'', ''pitch'', ''roll'', ''accel_x'', ''accel_y'', ''accel_z''],
       [''0'', ''0'', ''0'', ''0'', ''1'', ''0'', ''0''],
       [''1000'', ''90'', ''0'', ''0'', ''0'', ''1'', ''0'']]
   \<and> snd (generate_graphs py_float
       [''swing.csv'' \<mapsto>
         [[''time_ms'', ''yaw'', ''pitch'', ''roll'', ''accel_x'', ''accel_y'', ''accel_z''],
          [''0'', ''0'', ''0'', ''0'', ''1'', ''0'', ''0''],
          [''1000'', ''90'', ''0'', ''0'', ''0'', ''1'', ''0'']]]
       ''swing.csv'' ''swing.png'') = Inr True"
proof -
  let ?rows = "[[''time_ms'', ''yaw'', ''pitch'', ''roll'', ''accel_x'', ''accel_y'', ''accel_z''],
       [''0'', ''0'', ''0'', ''0'', ''1'', ''0'', ''0''],
       [''1000'', ''90'', ''0'', ''0'', ''0'', ''1'', ''0'']]"
  have f: "[''swing.csv'' \<mapsto> ?rows] ''swing.csv'' = Some ?rows" by simp
  from concrete_scenario [of "[''swing.csv'' \<mapsto> ?rows]" "''swing.csv''"
      "[''time_ms'', ''yaw'', ''pitch'', ''roll'', ''accel_x'', ''accel_y'', ''accel_z'']"
      "''swing.png''", OF f]
  have "snd (generate_graphs py_float [''swing.csv'' \<mapsto> ?rows] ''swing.csv'' ''swing.png'') =
        Inr True"
    by simp
  with f show ?thesis by blast
qed

text \<open>
  C7 as stated fails in one place: the normalised time axis of the acceleration series
  has one entry per sample, \<open>[0, 1]\<close>, and is not \<open>[0]\<close>.
\<close>

theorem concrete_scenario_times_counterexample:
  "parse_csv py_float
     [[''time_ms'', ''yaw'', ''pitch'', ''roll'', ''accel_x'', ''accel_y'', ''accel_z''],
      [''0'', ''0'', ''0'', ''0'', ''1'', ''0'', ''0''],
      [''1000'', ''90'', ''0'', ''0'', ''0'', ''1'', ''0'']] =
    Inr \<lparr>c_times = [Fin 0, Fin 1], c_yaws = [Fin 0, Fin 90], c_pitches = [Fin 0, Fin 0],
      c_rolls = [Fin 0, Fin 0], c_accel_x = [Fin 1, Fin 0], c_accel_y = [Fin 0, Fin 1],
      c_accel_z = [Fin 0, Fin 0]\<rparr>
   \<and> derive \<lparr>c_times = [Fin 0, Fin 1], c_yaws = [Fin 0, Fin 90], c_pitches = [Fin 0, Fin 0],
      c_rolls = [Fin 0, Fin 0], c_accel_x = [Fin 1, Fin 0], c_accel_y = [Fin 0, Fin 1],
      c_accel_z = [Fin 0, Fin 0]\<rparr> =
    Inr \<lparr>net_acc = [Fin 1, Fin 1], jerk = [Fin 0], jerk_times = [Fin 1],
      yaw_rate = [Fin 90], pitch_rate = [Fin 0], roll_rate = [Fin 0], deriv_times = [Fin 1],
      start_time = Fin 0, times_norm = [Fin 0, Fin 1],
      jerk_times_norm = [Fin 1], deriv_times_norm = [Fin 1]\<rparr>
   \<and> [Fin 0, Fin 1] \<noteq> [Fin 0]"
  by (simp add: run_defs py_float_simps engine_defs)

section \<open>Rows kept by the parser\<close>

lemma valid_row_iff:
  "valid_row f row \<longleftrightarrow> 7 \<le> length row \<and> (\<forall>k < 7. \<exists>v. f (row ! k) = Some v)"
proof -
  have "(\<forall>k < 7. P k) \<longleftrightarrow> P 0 \<and> P 1 \<and> P 2 \<and> P 3 \<and> P 4 \<and> P 5 \<and> P (6::nat)" for P
  proof
    assume a: "\<forall>k < 7. P k"
    show "P 0 \<and> P 1 \<and> P 2 \<and> P 3 \<and> P 4 \<and> P 5 \<and> P 6"
      using a by simp
  next
    assume a: "P 0 \<and> P 1 \<and> P 2 \<and> P 3 \<and> P 4 \<and> P 5 \<and> P 6"
    show "\<forall>k < 7. P k"
    proof (intro allI impI)
      fix k :: nat assume "k < 7"
      then have "k = 0 \<or> k = 1 \<or> k = 2 \<or> k = 3 \<or> k = 4 \<or> k = 5 \<or> k = 6" by arith
      with a show "P k" by auto
    qed
  qed
  then show ?thesis by (simp add: valid_row_def)
qed

lemma process_row_cases:
  "process_row f st row =
     (if valid_row f row then append_columns st (columns_of f [row]) else st)"
  by (simp add: process_row_valid process_row_invalid append_columns_def columns_of_def)

lemma filter_one_bad:
  assumes "list_all P pre" and "list_all P post" and "\<not> P bad"
  shows "filter P (pre @ bad # post) = pre @ post"
  using assms by (simp add: list_all_iff)

text \<open>
  C4. On a file with a first line, the parser passes over the first line and returns
  the columns of exactly the valid rows among the lines after it; a row is valid exactly
  when it has at least 7 fields and fields 0 to 6 all convert; the loop body appends one
  sample for a valid row and leaves the seven lists untouched for any other row, so one
  malformed row among valid rows yields exactly one sample fewer than there are rows.
  For every kept row the stored time is the converted first field divided by 1000 (for a
  finite value \<open>x\<close>, the real \<open>x / 1000\<close>) and the other six fields are stored as
  they convert.
\<close>

theorem parser_keeps_exactly_valid_rows:
  "parse_csv float_of (header # rest) =
     Inr (columns_of float_of (filter (valid_row float_of) rest))
   \<and> (\<forall>row. valid_row float_of row \<longleftrightarrow>
          7 \<le> length row \<and> (\<forall>k < 7. \<exists>v. float_of (row ! k) = Some v))
   \<and> (\<forall>st row. process_row float_of st row =
          (if valid_row float_of row then append_columns st (columns_of float_of [row]) else st))
   \<and> (\<forall>row x. valid_row float_of row \<and> float_of (row ! 0) = Some (Fin x)
          \<longrightarrow> c_times (columns_of float_of [row]) = [Fin (x / 1000)])
   \<and> (\<forall>pre bad post.
          list_all (valid_row float_of) pre \<and> list_all (valid_row float_of) post
          \<and> \<not> valid_row float_of bad
          \<longrightarrow> parse_csv float_of (header # pre @ bad # post) =
                Inr (columns_of float_of (pre @ post))
              \<and> length (c_times (columns_of float_of (pre @ post))) =
                length (pre @ bad # post) - 1)"
proof (intro conjI allI impI)
  show "parse_csv float_of (header # rest) =
     Inr (columns_of float_of (filter (valid_row float_of) rest))"
    by (rule parse_csv_Cons)
next
  fix row
  show "valid_row float_of row \<longleftrightarrow>
          7 \<le> length row \<and> (\<forall>k < 7. \<exists>v. float_of (row ! k) = Some v)"
    by (rule valid_row_iff)
next
  fix st row
  show "process_row float_of st row =
          (if valid_row float_of row then append_columns st (columns_of float_of [row]) else st)"
    by (rule process_row_cases)
next
  fix row x
  assume "valid_row float_of row \<and> float_of (row ! 0) = Some (Fin x)"
  then show "c_times (columns_of float_of [row]) = [Fin (x / 1000)]"
    by (simp add: columns_of_def field_def)
next
  fix pre bad post
  assume a: "list_all (valid_row float_of) pre \<and> list_all (valid_row float_of) post
          \<and> \<not> valid_row float_of bad"
  then have f: "filter (valid_row float_of) (pre @ bad # post) = pre @ post"
    using filter_one_bad [of "valid_row float_of" pre post bad] by blast
  show "parse_csv float_of (header # pre @ bad # post) = Inr (columns_of float_of (pre @ post))"
    by (simp only: parse_csv_Cons f)
  show "length (c_times (columns_of float_of (pre @ post))) = length (pre @ bad # post) - 1"
    by (simp add: columns_of_lengths)
qed

text \<open>
  A file of three rows, the second with a non-numeric yaw and the third with an eighth
  field: the first and third are kept. A row of two fields is not valid.
\<close>

theorem parser_keeps_exactly_valid_rows_witness:
  "parse_csv py_float
     [[''time_ms'', ''yaw'', ''pitch'', ''roll'', ''accel_x'', ''accel_y'', ''accel_z''],
      [''1000'', ''90'', ''0'', ''0'', ''3'', ''4'', ''0''],
      [''2000'', ''x'', ''0'', ''0'', ''3'', ''4'', ''0''],
      [''2000'', ''0'', ''0'', ''0'', ''0'', ''1'', ''0'', ''extra'']] =
    Inr \<lparr>c_times = [Fin 1, Fin 2], c_yaws = [Fin 90, Fin 0], c_pitches = [Fin 0, Fin 0],
      c_rolls = [Fin 0, Fin 0], c_accel_x = [Fin 3, Fin 0], c_accel_y = [Fin 4, Fin 1],
      c_accel_z = [Fin 0, Fin 0]\<rparr>
   \<and> list_all (valid_row py_float) [[''1000'', ''90'', ''0'', ''0'', ''3'', ''4'', ''0'']]
   \<and> list_all (valid_row py_float)
        [[''2000'', ''0'', ''0'', ''0'', ''0'', ''1'', ''0'', ''extra'']]
   \<and> \<not> valid_row py_float [''2000'', ''x'', ''0'', ''0'', ''3'', ''4'', ''0'']
   \<and> \<not> valid_row py_float [''2000'', ''90'']"
proof -
  let ?header = "[''time_ms'', ''yaw'', ''pitch'', ''roll'', ''accel_x'', ''accel_y'', ''accel_z'']"
  let ?pre = "[[''1000'', ''90'', ''0'', ''0'', ''3'', ''4'', ''0'']]"
  let ?bad = "[''2000'', ''x'', ''0'', ''0'', ''3'', ''4'', ''0'']"
  let ?post = "[[''2000'', ''0'', ''0'', ''0'', ''0'', ''1'', ''0'', ''extra'']]"
  have v: "list_all (valid_row py_float) ?pre" "list_all (valid_row py_float) ?post"
    "\<not> valid_row py_float ?bad" "\<not> valid_row py_float [''2000'', ''90'']"
    by (simp_all add: valid_row_def py_float_simps)
  from parser_keeps_exactly_valid_rows [of py_float ?header "?pre @ ?bad # ?post"] v
  have "parse_csv py_float (?header # ?pre @ ?bad # ?post) =
        Inr (columns_of py_float (?pre @ ?post))"
    by blast
  then have "parse_csv py_float (?header # ?pre @ ?bad # ?post) =
    Inr \<lparr>c_times = [Fin 1, Fin 2], c_yaws = [Fin 90, Fin 0], c_pitches = [Fin 0, Fin 0],
      c_rolls = [Fin 0, Fin 0], c_accel_x = [Fin 3, Fin 0], c_accel_y = [Fin 4, Fin 1],
      c_accel_z = [Fin 0, Fin 0]\<rparr>"
    by (simp add: columns_of_def field_def py_float_simps)
  with v show ?thesis by simp
qed

text \<open>
  C6. Whenever the parser returns, its seven arrays have equal length, and there is a
  list of kept rows, a subsequence of the lines after the header in input order, such
  that index \<open>i\<close> of every array is the conversion of kept row \<open>i\<close>. A row whose
  conversion fails at any field adds nothing to any array.
\<close>

theorem parsed_columns_aligned:
  assumes "parse_csv float_of rows = Inr c"
  shows "length (c_yaws c) = length (c_times c)
     \<and> length (c_pitches c) = length (c_times c)
     \<and> length (c_rolls c) = length (c_times c)
     \<and> length (c_accel_x c) = length (c_times c)
     \<and> length (c_accel_y c) = length (c_times c)
     \<and> length (c_accel_z c) = length (c_times c)
     \<and> (\<exists>kept. subseq kept (drop 1 rows) \<and> length kept = length (c_times c)
          \<and> (\<forall>i < length kept.
                7 \<le> length (kept ! i)
              \<and> parse_fields float_of (kept ! i) =
                  Some (c_times c ! i, c_yaws c ! i, c_pitches c ! i, c_rolls c ! i,
                        c_accel_x c ! i, c_accel_y c ! i, c_accel_z c ! i)))
     \<and> (\<forall>st row. parse_fields float_of row = None \<longrightarrow> process_row float_of st row = st)"
proof -
  let ?kept = "filter (valid_row float_of) (tl rows)"
  from parse_csv_InrD [OF assms]
  have c: "c = columns_of float_of ?kept" and ne: "rows \<noteq> []" by simp_all
  have k: "\<forall>i < length ?kept.
                7 \<le> length (?kept ! i)
              \<and> parse_fields float_of (?kept ! i) =
                  Some (c_times c ! i, c_yaws c ! i, c_pitches c ! i, c_rolls c ! i,
                        c_accel_x c ! i, c_accel_y c ! i, c_accel_z c ! i)"
  proof (intro allI impI)
    fix i assume i: "i < length ?kept"
    then have "?kept ! i \<in> set ?kept" by (rule nth_mem)
    then have v: "valid_row float_of (?kept ! i)" by simp
    then have "7 \<le> length (?kept ! i)" by (simp add: valid_row_def)
    moreover have "parse_fields float_of (?kept ! i) =
                  Some (c_times c ! i, c_yaws c ! i, c_pitches c ! i, c_rolls c ! i,
                        c_accel_x c ! i, c_accel_y c ! i, c_accel_z c ! i)"
      using i by (simp add: parse_fields_valid [OF v] c columns_of_def)
    ultimately show "7 \<le> length (?kept ! i)
              \<and> parse_fields float_of (?kept ! i) =
                  Some (c_times c ! i, c_yaws c ! i, c_pitches c ! i, c_rolls c ! i,
                        c_accel_x c ! i, c_accel_y c ! i, c_accel_z c ! i)"
      by blast
  qed
  have s: "subseq ?kept (drop 1 rows)"
    by (simp add: drop_Suc)
  have l: "length ?kept = length (c_times c)"
    by (simp add: c columns_of_lengths)
  have n: "\<forall>st row. parse_fields float_of row = None \<longrightarrow> process_row float_of st row = st"
    by (simp add: process_row_def)
  show ?thesis
    using parse_csv_lengths [OF assms] s l k n by blast
qed


text \<open>
  A row whose last field fails to convert, followed by a valid row: only the second
  contributes, to all seven arrays.
\<close>

theorem parsed_columns_aligned_witness:
  "parse_csv py_float
     [[''time_ms'', ''yaw'', ''pitch'', ''roll'', ''accel_x'', ''accel_y'', ''accel_z''],
      [''1000'', ''90'', ''0'', ''0'', ''3'', ''4'', ''x''],
      [''2000'', ''0'', ''0'', ''0'', ''0'', ''1'', ''0'']] =
    Inr \<lparr>c_times = [Fin 2], c_yaws = [Fin 0], c_pitches = [Fin 0], c_rolls = [Fin 0],
      c_accel_x = [Fin 0], c_accel_y = [Fin 1], c_accel_z = [Fin 0]\<rparr>
   \<and> (\<exists>kept. subseq kept
          [[''1000'', ''90'', ''0'', ''0'', ''3'', ''4'', ''x''],
           [''2000'', ''0'', ''0'', ''0'', ''0'', ''1'', ''0'']]
        \<and> length kept = 1
        \<and> parse_fields py_float (kept ! 0) =
            Some (Fin 2, Fin 0, Fin 0, Fin 0, Fin 0, Fin 1, Fin 0))"
proof -
  let ?c = "\<lparr>c_times = [Fin 2], c_yaws = [Fin 0], c_pitches = [Fin 0], c_rolls = [Fin 0],
      c_accel_x = [Fin 0], c_accel_y = [Fin 1], c_accel_z = [Fin 0]\<rparr>"
  have p: "parse_csv py_float
     [[''time_ms'', ''yaw'', ''pitch'', ''roll'', ''accel_x'', ''accel_y'', ''accel_z''],
      [''1000'', ''90'', ''0'', ''0'', ''3'', ''4'', ''x''],
      [''2000'', ''0'', ''0'', ''0'', ''0'', ''1'', ''0'']] = Inr ?c"
    by (simp add: run_defs py_float_simps)
  from parsed_columns_aligned [OF p]
  obtain kept where "subseq kept
          [[''1000'', ''90'', ''0'', ''0'', ''3'', ''4'', ''x''],
           [''2000'', ''0'', ''0'', ''0'', ''0'', ''1'', ''0'']]"
    and "length kept = 1"
    and "\<forall>i < length kept. parse_fields py_float (kept ! i) =
           Some (c_times ?c ! i, c_yaws ?c ! i, c_pitches ?c ! i, c_rolls ?c ! i,
                 c_accel_x ?c ! i, c_accel_y ?c ! i, c_accel_z ?c ! i)"
    by auto
  then have "\<exists>kept. subseq kept
          [[''1000'', ''90'', ''0'', ''0'', ''3'', ''4'', ''x''],
           [''2000'', ''0'', ''0'', ''0'', ''0'', ''1'', ''0'']]
        \<and> length kept = 1
        \<and> parse_fields py_float (kept ! 0) =
            Some (Fin 2, Fin 0, Fin 0, Fin 0, Fin 0, Fin 1, Fin 0)"
    by auto
  with p show ?thesis by blast
qed

section \<open>Exit status and output file\<close>

lemma generate_graphs_missing:
  "fs input_file = None \<Longrightarrow>
   generate_graphs f fs input_file output_file = ([], Inl FileNotFoundError)"
  by (simp add: generate_graphs_def)









end
